theory Spec2Isabelle
  imports Main "HOL-Library.Word"
begin

unbundle bit_operations_syntax

section \<open>Library functions used by server.go\<close>

subsection \<open>strings.HasPrefix and strings.TrimPrefix\<close>

text \<open>
  Go strings are byte sequences; they are modelled as \<open>string\<close> (a list of 8-bit
  characters). \<open>strings.HasPrefix(s, prefix)\<close> is
  \<^verbatim>\<open>len(s) >= len(prefix) && s[:len(prefix)] == prefix\<close>, and
  \<open>strings.TrimPrefix\<close> removes the prefix when it is there.
\<close>

definition HasPrefix :: "string \<Rightarrow> string \<Rightarrow> bool" where
  "HasPrefix s pre = (length pre \<le> length s \<and> take (length pre) s = pre)"

definition TrimPrefix :: "string \<Rightarrow> string \<Rightarrow> string" where
  "TrimPrefix s pre = (if HasPrefix s pre then drop (length pre) s else s)"

subsection \<open>encoding/hex\<close>

text \<open>
  \<open>hex.DecodeString\<close> of the Go standard library (Go 1.10 and later) decodes pairs of
  hexadecimal digits from left to right. At the first byte that is not a hexadecimal
  digit, or at a dangling last digit, it stops and returns the bytes decoded so far
  together with an error:
  \<^verbatim>\<open>
  func Decode(dst, src []byte) (int, error) {
      i, j := 0, 1
      for ; j < len(src); j += 2 {
          p := src[j-1]; q := src[j]
          a := reverseHexTable[p]; b := reverseHexTable[q]
          if a > 0x0f { return i, InvalidByteError(p) }
          if b > 0x0f { return i, InvalidByteError(q) }
          dst[i] = (a << 4) | b
          i++
      }
      if len(src)%2 == 1 {
          if reverseHexTable[src[j-1]] > 0x0f { return i, InvalidByteError(src[j-1]) }
          return i, ErrLength
      }
      return i, nil
  }
  func DecodeString(s string) ([]byte, error) {
      dst := make([]byte, DecodedLen(len(s)))
      n, err := Decode(dst, []byte(s))
      return dst[:n], err
  }
  \<close>
\<close>

datatype hex_error = InvalidByteError char | ErrLength

definition reverseHexTable :: "char \<Rightarrow> nat" where
  "reverseHexTable c =
     (let n = (of_char c :: nat) in
      if 48 \<le> n \<and> n \<le> 57 then n - 48
      else if 97 \<le> n \<and> n \<le> 102 then n - 87
      else if 65 \<le> n \<and> n \<le> 70 then n - 55
      else 255)"

fun DecodeString :: "string \<Rightarrow> string \<times> hex_error option" where
  "DecodeString [] = ([], None)"
| "DecodeString [p] =
     (if reverseHexTable p > 15 then ([], Some (InvalidByteError p))
      else ([], Some ErrLength))"
| "DecodeString (p # q # rest) =
     (let a = reverseHexTable p; b = reverseHexTable q in
      if a > 15 then ([], Some (InvalidByteError p))
      else if b > 15 then ([], Some (InvalidByteError q))
      else (case DecodeString rest of
              (bs, err) \<Rightarrow> (char_of (a * 16 + b) # bs, err)))"

subsection \<open>crypto/md5\<close>

text \<open>
  \<open>md5.New\<close>, \<open>io.WriteString\<close> and \<open>Sum(nil)\<close> together compute the MD5 digest
  (RFC 1321) of the bytes written. The digest is modelled on 32-bit words: the message
  is padded with the byte \<open>0x80\<close>, zero bytes up to 56 modulo 64 and the bit length as
  a 64-bit little-endian number, and each 64-byte block runs the 64 steps of the
  compression function.
\<close>

type_synonym u32 = "32 word"

definition md5_K :: "u32 list" where
  "md5_K =
     [0xd76aa478, 0xe8c7b756, 0x242070db, 0xc1bdceee,
      0xf57c0faf, 0x4787c62a, 0xa8304613, 0xfd469501,
      0x698098d8, 0x8b44f7af, 0xffff5bb1, 0x895cd7be,
      0x6b901122, 0xfd987193, 0xa679438e, 0x49b40821,
      0xf61e2562, 0xc040b340, 0x265e5a51, 0xe9b6c7aa,
      0xd62f105d, 0x02441453, 0xd8a1e681, 0xe7d3fbc8,
      0x21e1cde6, 0xc33707d6, 0xf4d50d87, 0x455a14ed,
      0xa9e3e905, 0xfcefa3f8, 0x676f02d9, 0x8d2a4c8a,
      0xfffa3942, 0x8771f681, 0x6d9d6122, 0xfde5380c,
      0xa4beea44, 0x4bdecfa9, 0xf6bb4b60, 0xbebfbc70,
      0x289b7ec6, 0xeaa127fa, 0xd4ef3085, 0x04881d05,
      0xd9d4d039, 0xe6db99e5, 0x1fa27cf8, 0xc4ac5665,
      0xf4292244, 0x432aff97, 0xab9423a7, 0xfc93a039,
      0x655b59c3, 0x8f0ccc92, 0xffeff47d, 0x85845dd1,
      0x6fa87e4f, 0xfe2ce6e0, 0xa3014314, 0x4e0811a1,
      0xf7537e82, 0xbd3af235, 0x2ad7d2bb, 0xeb86d391]"

definition md5_shift :: "nat list" where
  "md5_shift =
     [7, 12, 17, 22, 7, 12, 17, 22, 7, 12, 17, 22, 7, 12, 17, 22,
      5, 9, 14, 20, 5, 9, 14, 20, 5, 9, 14, 20, 5, 9, 14, 20,
      4, 11, 16, 23, 4, 11, 16, 23, 4, 11, 16, 23, 4, 11, 16, 23,
      6, 10, 15, 21, 6, 10, 15, 21, 6, 10, 15, 21, 6, 10, 15, 21]"

definition rotl32 :: "u32 \<Rightarrow> nat \<Rightarrow> u32" where
  "rotl32 x n = (push_bit n x) OR (drop_bit (32 - n) x)"

definition md5_step :: "u32 list \<Rightarrow> u32 \<times> u32 \<times> u32 \<times> u32 \<Rightarrow> nat \<Rightarrow> u32 \<times> u32 \<times> u32 \<times> u32" where
  "md5_step m st i =
     (case st of (a, b, c, d) \<Rightarrow>
        let f = (if i < 16 then (b AND c) OR (NOT b AND d)
                 else if i < 32 then (d AND b) OR (NOT d AND c)
                 else if i < 48 then b XOR c XOR d
                 else c XOR (b OR NOT d));
            g = (if i < 16 then i
                 else if i < 32 then (5 * i + 1) mod 16
                 else if i < 48 then (3 * i + 5) mod 16
                 else (7 * i) mod 16);
            x = f + a + md5_K ! i + m ! g
        in (d, b + rotl32 x (md5_shift ! i), b, c))"

definition md5_block :: "u32 \<times> u32 \<times> u32 \<times> u32 \<Rightarrow> u32 list \<Rightarrow> u32 \<times> u32 \<times> u32 \<times> u32" where
  "md5_block st m =
     (case st of (a0, b0, c0, d0) \<Rightarrow>
        case foldl (md5_step m) st [0..<64] of (a, b, c, d) \<Rightarrow>
          (a0 + a, b0 + b, c0 + c, d0 + d))"

type_synonym u8 = "8 word"

definition le_bytes32 :: "u32 \<Rightarrow> u8 list" where
  "le_bytes32 w = map (\<lambda>i. ucast (drop_bit (8 * i) w)) [0..<4]"

definition le_bytes64 :: "64 word \<Rightarrow> u8 list" where
  "le_bytes64 w = map (\<lambda>i. ucast (drop_bit (8 * i) w)) [0..<8]"

definition md5_pad :: "u8 list \<Rightarrow> u8 list" where
  "md5_pad bs =
     (let n = length bs in
      bs @ [0x80] @ replicate ((119 - n mod 64) mod 64) 0 @ le_bytes64 (8 * of_nat n))"

fun le_words :: "u8 list \<Rightarrow> u32 list" where
  "le_words (b0 # b1 # b2 # b3 # bs) =
     (ucast b0 OR push_bit 8 (ucast b1) OR push_bit 16 (ucast b2) OR push_bit 24 (ucast b3))
       # le_words bs"
| "le_words _ = []"

fun md5_blocks :: "u32 \<times> u32 \<times> u32 \<times> u32 \<Rightarrow> u32 list \<Rightarrow> u32 \<times> u32 \<times> u32 \<times> u32" where
  "md5_blocks st [] = st"
| "md5_blocks st (w # ws) = md5_blocks (md5_block st (take 16 (w # ws))) (drop 16 (w # ws))"

definition md5_Sum :: "string \<Rightarrow> string" where
  "md5_Sum s =
     (case md5_blocks (0x67452301, 0xefcdab89, 0x98badcfe, 0x10325476)
             (le_words (md5_pad (map of_char s))) of
        (a, b, c, d) \<Rightarrow> map (\<lambda>x. char_of (unat x)) (concat (map le_bytes32 [a, b, c, d])))"

text \<open>
  \<open>hex.EncodeToString\<close> writes two digits of \<^verbatim>\<open>"0123456789abcdef"\<close> for each byte,
  the high nibble first.
\<close>

definition hextable :: string where
  "hextable = ''0123456789abcdef''"

definition EncodeToString :: "string \<Rightarrow> string" where
  "EncodeToString src =
     concat (map (\<lambda>c. let v = (of_char c :: nat) in [hextable ! (v div 16), hextable ! (v mod 16)]) src)"

section \<open>decodePassword\<close>

text \<open>
  \<^verbatim>\<open>
  func decodePassword(p string) string {
      const prefix = "enc:"
      if !strings.HasPrefix(p, prefix) { return p }
      // Treat invalid hex as "empty password"
      b, _ := hex.DecodeString(strings.TrimPrefix(p, prefix))
      return string(b)
  }
  \<close>
  The error of \<open>hex.DecodeString\<close> is dropped; only the bytes are used.
\<close>

definition decodePassword :: "string \<Rightarrow> string" where
  "decodePassword p =
     (let pre = ''enc:'' in
      if \<not> HasPrefix p pre then p
      else (case DecodeString (TrimPrefix p pre) of (b, _) \<Rightarrow> b))"

section \<open>Configuration and request context\<close>

text \<open>
  \<open>Config\<close> as in server.go. \<open>Keepalive\<close> is a \<open>time.Duration\<close>, an integer number
  of nanoseconds. The \<open>Logger\<close> field is the sink that \<open>logf\<close> prints to; what is
  printed is recorded in the event traces below.
\<close>

record Config =
  SubsonicUser :: string
  SubsonicPassword :: string
  MusicDirectory :: string
  Verbose :: bool
  Keepalive :: int

text \<open>
  \<open>type authMethod int\<close> with the two constants declared by \<open>iota\<close>. Any other integer
  is a value of the type as well.
\<close>

type_synonym authMethod = int

definition authMethodPassword :: authMethod where
  "authMethodPassword = 0"

definition authMethodTokenSalt :: authMethod where
  "authMethodTokenSalt = 1"

record requestContext =
  User :: string
  Password :: string
  Token :: string
  Salt :: string
  Client :: string
  Version :: string
  authMethod :: authMethod

section \<open>HTTP requests\<close>

text \<open>
  \<open>url.Values\<close> is \<open>map[string][]string\<close>; \<open>Get\<close> returns the first value stored
  under the key, or the empty string when the key is absent or its slice is empty.
  A request carries the values that \<open>r.URL.Query()\<close> returns, the text of
  \<open>r.URL.String()\<close>, and its body, which is a separate field.
\<close>

type_synonym Values = "string \<rightharpoonup> string list"

definition Get :: "Values \<Rightarrow> string \<Rightarrow> string" where
  "Get v key = (case v key of None \<Rightarrow> [] | Some [] \<Rightarrow> [] | Some (x # _) \<Rightarrow> x)"

record request =
  Method :: string
  RemoteAddr :: string
  URL_String :: string
  URL_Query :: Values
  Body :: string

section \<open>parseRequestContext\<close>

text \<open>
  The function returns a pointer and a flag: \<open>(nil, false)\<close> is \<open>(None, False)\<close>.
  Fields that a composite literal does not mention hold the empty string.
\<close>

definition parseRequestContext :: "request \<Rightarrow> requestContext option \<times> bool" where
  "parseRequestContext r =
     (let q = URL_Query r;
          user = Get q ''u'' in
      if user = [] then (None, False)
      else let client = Get q ''c'' in
      if client = [] then (None, False)
      else let version = Get q ''v'' in
      if version = [] then (None, False)
      else let pass = decodePassword (Get q ''p'') in
      if pass \<noteq> [] then
        (Some \<lparr>User = user, Password = pass, Token = [], Salt = [],
               Client = client, Version = version,
               authMethod = authMethodPassword\<rparr>, True)
      else let token = Get q ''t'' in
      if token = [] then (None, False)
      else let salt = Get q ''s'' in
      if salt = [] then (None, False)
      else
        (Some \<lparr>User = user, Password = [], Token = token, Salt = salt,
               Client = client, Version = version,
               authMethod = authMethodTokenSalt\<rparr>, True))"

section \<open>authenticate\<close>

text \<open>
  The method reads only \<open>s.cfg\<close> of the server, so the model takes the \<open>Config\<close>.
\<close>

definition authenticate :: "Config \<Rightarrow> requestContext \<Rightarrow> bool" where
  "authenticate c rctx =
     (if User rctx \<noteq> SubsonicUser c then False
      else if authMethod rctx = authMethodPassword then
        Password rctx = SubsonicPassword c
      else if authMethod rctx = authMethodTokenSalt then
        Token rctx = EncodeToString (md5_Sum (SubsonicPassword c @ Salt rctx))
      else False)"

section \<open>HTTP responses\<close>

text \<open>
  An \<open>http.ResponseWriter\<close> is modelled by the header map that \<open>w.Header()\<close> gives
  access to, the status line once it is written, and the data written to the body.
  \<open>WriteHeader\<close> sends the status code together with the header map as it is at that
  moment; a later change of the map is not sent, and a second \<open>WriteHeader\<close> is
  ignored. The first \<open>Write\<close> sends status 200 when no status was sent before. The
  header keys that server.go uses are in canonical form already.
\<close>

type_synonym Header = "string \<rightharpoonup> string list"

definition Header_Set :: "Header \<Rightarrow> string \<Rightarrow> string \<Rightarrow> Header" where
  "Header_Set h key val = h(key \<mapsto> [val])"

definition Header_Del :: "Header \<Rightarrow> string \<Rightarrow> Header" where
  "Header_Del h key = h(key := None)"

text \<open>
  Modelled from the spec: the response bodies \<open>errMissingParameter\<close> and
  \<open>errUnauthorized\<close> are declared in a file of the repository that is not part of the
  sources at hand. The spec names them as the two structured errors of the core,
  ``two codes used here: missing-parameter, unauthorized'', with distinguishable bodies.
\<close>

datatype container = errMissingParameter | errUnauthorized

datatype chunk = Text string | XML container

record ResponseWriter =
  Header :: Header
  Sent :: "(nat \<times> Header) option"
  Written :: "chunk list"

definition WriteHeader :: "ResponseWriter \<Rightarrow> nat \<Rightarrow> ResponseWriter" where
  "WriteHeader w code = (if Sent w = None then w\<lparr>Sent := Some (code, Header w)\<rparr> else w)"

definition Write :: "ResponseWriter \<Rightarrow> chunk \<Rightarrow> ResponseWriter" where
  "Write w c =
     (let w' = (if Sent w = None then WriteHeader w 200 else w) in
      w'\<lparr>Written := Written w' @ [c]\<rparr>)"

text \<open>
  \<open>http.Error\<close> of the standard library:
  \<^verbatim>\<open>
  func Error(w ResponseWriter, error string, code int) {
      h := w.Header()
      h.Del("Content-Length")
      h.Set("Content-Type", "text/plain; charset=utf-8")
      h.Set("X-Content-Type-Options", "nosniff")
      w.WriteHeader(code)
      fmt.Fprintln(w, error)
  }
  \<close>
\<close>

definition http_Error :: "ResponseWriter \<Rightarrow> string \<Rightarrow> nat \<Rightarrow> ResponseWriter" where
  "http_Error w err code =
     (let h = Header_Del (Header w) ''Content-Length'';
          h = Header_Set h ''Content-Type'' ''text/plain; charset=utf-8'';
          h = Header_Set h ''X-Content-Type-Options'' ''nosniff'';
          w = WriteHeader (w\<lparr>Header := h\<rparr>) code
      in Write w (Text (err @ [CHR 0x0A])))"

text \<open>
  \<open>http.NotFound\<close>, the answer of a \<open>ServeMux\<close> for a path that has no route:
  \<^verbatim>\<open>func NotFound(w ResponseWriter, r *Request) { Error(w, "404 page not found", StatusNotFound) }\<close>
\<close>

definition http_NotFound :: "ResponseWriter \<Rightarrow> 'r \<Rightarrow> ResponseWriter" where
  "http_NotFound w r = http_Error w ''404 page not found'' 404"

text \<open>
  Modelled from the spec: \<open>writeXML\<close> is defined in a file of the repository that is
  not part of the sources at hand. The spec says of its two uses in the handler:
  ``respond with HTTP success status but a body encoding the domain-specific "missing
  parameter" error'' and ``respond the same way but with the "unauthorized" error body''.
  The model writes the encoded container to the body, which sends status 200.
\<close>

definition writeXML :: "ResponseWriter \<Rightarrow> container \<Rightarrow> ResponseWriter" where
  "writeXML w c = Write w (XML c)"

text \<open>What was sent: the status code, and the values of a header key.\<close>

definition status :: "ResponseWriter \<Rightarrow> nat option" where
  "status w = (case Sent w of None \<Rightarrow> None | Some (code, _) \<Rightarrow> Some code)"

definition sentHeader :: "ResponseWriter \<Rightarrow> string \<Rightarrow> string list" where
  "sentHeader w key =
     (case Sent w of
        None \<Rightarrow> []
      | Some (_, h) \<Rightarrow> (case h key of None \<Rightarrow> [] | Some vs \<Rightarrow> vs))"

section \<open>The server\<close>

text \<open>
  Of the fields of \<open>Server\<close>, the model keeps what the functions below use: the
  configuration, the route table and the backend. The route table \<open>mux\<close> is the
  behaviour of \<open>s.mux.ServeHTTP\<close>, a function of the writer and the request; the
  route handlers themselves are outside server.go. Of the backend \<open>db\<close> only
  \<open>Ping\<close> is used here: \<open>db s n\<close> is the error that the call number \<open>n\<close> of
  \<open>s.db.Ping()\<close> returns, \<open>None\<close> for \<open>nil\<close>.

  What a function does besides computing its result is recorded as a list of events in
  the order of the calls in the source: the lines given to \<open>logf\<close> and the calls of
  the functions named by the constructors.
\<close>

record Server =
  db :: "nat \<Rightarrow> string option"
  cfg :: Config
  mux :: "ResponseWriter \<Rightarrow> request \<Rightarrow> ResponseWriter"

datatype select_case = ctx_Done | tick_C

datatype event =
    Logf string
  | Call_http_Error
  | Call_parseRequestContext
  | Call_authenticate
  | Call_writeXML container
  | Call_mux_ServeHTTP
  | NilDereference
  | Call_NewTicker int
  | Call_Ping nat
  | Select select_case
  | Call_wg_Done

subsection \<open>ServeHTTP\<close>

text \<open>
  \<^verbatim>\<open>
  func (s *Server) ServeHTTP(w http.ResponseWriter, r *http.Request) {
      if s.cfg.Verbose {
          s.logf("%s -> %s %s", r.RemoteAddr, r.Method, r.URL.String())
      }
      if r.Method != http.MethodGet && r.Method != http.MethodPost {
          http.Error(w, "method not allowed", http.StatusMethodNotAllowed)
          return
      }
      w.Header().Set("Connection", "close")
      rctx, ok := parseRequestContext(r)
      if !ok { writeXML(w, errMissingParameter); return }
      if !s.authenticate(rctx) { writeXML(w, errUnauthorized); return }
      s.mux.ServeHTTP(w, r)
  }
  \<close>
  \<open>authenticate\<close> reads the fields of \<open>rctx\<close>, so a nil pointer returned with
  \<open>ok = true\<close> would stop the handler there.
\<close>

definition ServeHTTP :: "Server \<Rightarrow> ResponseWriter \<Rightarrow> request \<Rightarrow> ResponseWriter \<times> event list" where
  "ServeHTTP s w r =
     (let tr = (if Verbose (cfg s)
                then [Logf (RemoteAddr r @ '' -> '' @ Method r @ '' '' @ URL_String r)]
                else []) in
      if Method r \<noteq> ''GET'' \<and> Method r \<noteq> ''POST'' then
        (http_Error w ''method not allowed'' 405, tr @ [Call_http_Error])
      else
        let w = w\<lparr>Header := Header_Set (Header w) ''Connection'' ''close''\<rparr>;
            tr = tr @ [Call_parseRequestContext] in
        case parseRequestContext r of (rctx, ok) \<Rightarrow>
          if \<not> ok then (writeXML w errMissingParameter, tr @ [Call_writeXML errMissingParameter])
          else (case rctx of
                  None \<Rightarrow> (w, tr @ [Call_authenticate, NilDereference])
                | Some rc \<Rightarrow>
                    let tr = tr @ [Call_authenticate] in
                    if \<not> authenticate (cfg s) rc then
                      (writeXML w errUnauthorized, tr @ [Call_writeXML errUnauthorized])
                    else (mux s w r, tr @ [Call_mux_ServeHTTP])))"

subsection \<open>keepalive\<close>

text \<open>
  \<^verbatim>\<open>
  func (s *Server) keepalive(ctx context.Context) {
      defer s.wg.Done()
      tick := time.NewTicker(s.cfg.Keepalive)
      for {
          if err := s.db.Ping(); err != nil {
              s.logf("failed to send keepalive message: %v", err)
          }
          select {
          case <-ctx.Done():
              return
          case <-tick.C:
          }
      }
  }
  \<close>
  The goroutine is run against the list of the cases that its \<open>select\<close> statements
  take, in order: \<open>tick_C\<close> when the ticker fires first, \<open>ctx_Done\<close> when the
  cancellation is received. When the list is used up the goroutine waits in \<open>select\<close>;
  the result says whether it is waiting there, has returned, or has panicked
  (\<open>time.NewTicker\<close> panics on an interval that is not positive; the deferred
  \<open>s.wg.Done()\<close> runs on every exit).
\<close>

datatype goroutine = Waiting | Returned | Panicked

definition ping :: "Server \<Rightarrow> nat \<Rightarrow> event list" where
  "ping s n =
     Call_Ping n #
       (case db s n of
          None \<Rightarrow> []
        | Some err \<Rightarrow> [Logf (''failed to send keepalive message: '' @ err)])"

fun keepalive_loop :: "Server \<Rightarrow> nat \<Rightarrow> select_case list \<Rightarrow> event list \<times> goroutine" where
  "keepalive_loop s n [] = (ping s n, Waiting)"
| "keepalive_loop s n (ctx_Done # _) = (ping s n @ [Select ctx_Done], Returned)"
| "keepalive_loop s n (tick_C # sel) =
     (case keepalive_loop s (Suc n) sel of
        (evs, g) \<Rightarrow> (ping s n @ [Select tick_C] @ evs, g))"

definition keepalive :: "Server \<Rightarrow> select_case list \<Rightarrow> event list \<times> goroutine" where
  "keepalive s sel =
     (if Keepalive (cfg s) \<le> 0 then ([Call_wg_Done], Panicked)
      else case keepalive_loop s 0 sel of
             (evs, g) \<Rightarrow>
               (Call_NewTicker (Keepalive (cfg s)) # evs @ (if g = Returned then [Call_wg_Done] else []), g))"

text \<open>
  Two readings of a list of events: the numbers of the \<open>Ping\<close> calls, and the lines
  given to \<open>logf\<close>, each in the order of the events.
\<close>

definition pings_of :: "event list \<Rightarrow> nat list" where
  "pings_of evs = concat (map (\<lambda>e. case e of Call_Ping n \<Rightarrow> [n] | _ \<Rightarrow> []) evs)"

definition logs_of :: "event list \<Rightarrow> string list" where
  "logs_of evs = concat (map (\<lambda>e. case e of Logf m \<Rightarrow> [m] | _ \<Rightarrow> []) evs)"

definition ping_log :: "Server \<Rightarrow> nat \<Rightarrow> string list" where
  "ping_log s n =
     (case db s n of
        None \<Rightarrow> []
      | Some err \<Rightarrow> [''failed to send keepalive message: '' @ err])"

section \<open>Properties of the library functions\<close>

lemma reverseHexTable_le: "reverseHexTable c \<le> 15 \<or> reverseHexTable c = 255"
  by (auto simp: reverseHexTable_def Let_def)

lemma hextable_nth_in: "n < 16 \<Longrightarrow> hextable ! n \<in> set hextable"
  unfolding hextable_def by (rule nth_mem) simp

lemma EncodeToString_lowercase: "set (EncodeToString bs) \<subseteq> set ''0123456789abcdef''"
proof -
  have "hextable ! ((of_char c :: nat) div 16) \<in> set hextable
      \<and> hextable ! ((of_char c :: nat) mod 16) \<in> set hextable" for c
  proof -
    have "(of_char c :: nat) < 256"
      by (rule nat_of_char_less_256)
    then have "(of_char c :: nat) div 16 < 16"
      by arith
    moreover have "(of_char c :: nat) mod 16 < 16"
      by simp
    ultimately show ?thesis
      using hextable_nth_in by blast
  qed
  then have "set (EncodeToString bs) \<subseteq> set hextable"
    by (auto simp: EncodeToString_def Let_def)
  then show ?thesis
    by (simp add: hextable_def)
qed

lemma length_EncodeToString: "length (EncodeToString bs) = 2 * length bs"
  by (induction bs) (simp_all add: EncodeToString_def Let_def)

lemma md5_test_vector_empty:
  "EncodeToString (md5_Sum []) = ''d41d8cd98f00b204e9800998ecf8427e''"
  by code_simp

lemma md5_test_vector_sesame:
  "EncodeToString (md5_Sum (''sesame'' @ ''c19b2d'')) = ''26719a1196d2a940705a59634eb18eab''"
  by code_simp

section \<open>The authenticator\<close>

text \<open>
  C1. \<open>authenticate\<close> accepts exactly when the user names agree and, in password mode,
  the passwords are the same byte string, or, in token mode, the token is the
  hexadecimal text of the MD5 digest of the configured password followed by the salt.
  Every other value of the discriminant is rejected. The expected token consists of the
  digits \<open>0\<close> to \<open>9\<close> and the lower-case letters \<open>a\<close> to \<open>f\<close> only, and
  the comparison is equality of byte strings.
\<close>

theorem authenticate_iff:
  "authenticate c rctx =
     (User rctx = SubsonicUser c \<and>
      (authMethod rctx = authMethodPassword \<and> Password rctx = SubsonicPassword c
       \<or> authMethod rctx = authMethodTokenSalt
          \<and> Token rctx = EncodeToString (md5_Sum (SubsonicPassword c @ Salt rctx))))
   \<and> \<not> (authMethod rctx \<noteq> authMethodPassword \<and> authMethod rctx \<noteq> authMethodTokenSalt
          \<and> authenticate c rctx)
   \<and> set (EncodeToString (md5_Sum (SubsonicPassword c @ Salt rctx)))
        \<subseteq> set ''0123456789abcdef''"
proof -
  have "authMethodPassword \<noteq> authMethodTokenSalt"
    by (simp add: authMethodPassword_def authMethodTokenSalt_def)
  then show ?thesis
    using EncodeToString_lowercase by (auto simp: authenticate_def)
qed


theorem authenticate_iff_witness:
  "authenticate \<lparr>SubsonicUser = ''joe'', SubsonicPassword = ''sesame'', MusicDirectory = [],
        Verbose = False, Keepalive = 0\<rparr>
     \<lparr>User = ''joe'', Password = [], Token = ''26719a1196d2a940705a59634eb18eab'',
        Salt = ''c19b2d'', Client = ''app'', Version = ''1.16'', authMethod = 1\<rparr>
   \<and> \<not> authenticate \<lparr>SubsonicUser = ''joe'', SubsonicPassword = ''sesame'', MusicDirectory = [],
        Verbose = False, Keepalive = 0\<rparr>
     \<lparr>User = ''joe'', Password = [], Token = ''26719A1196D2A940705A59634EB18EAB'',
        Salt = ''c19b2d'', Client = ''app'', Version = ''1.16'', authMethod = 1\<rparr>
   \<and> authenticate \<lparr>SubsonicUser = ''joe'', SubsonicPassword = ''sesame'', MusicDirectory = [],
        Verbose = False, Keepalive = 0\<rparr>
     \<lparr>User = ''joe'', Password = ''sesame'', Token = [],
        Salt = [], Client = ''app'', Version = ''1.16'', authMethod = 0\<rparr>
   \<and> \<not> authenticate \<lparr>SubsonicUser = ''joe'', SubsonicPassword = ''sesame'', MusicDirectory = [],
        Verbose = False, Keepalive = 0\<rparr>
     \<lparr>User = ''joe'', Password = ''sesame'', Token = ''26719a1196d2a940705a59634eb18eab'',
        Salt = ''c19b2d'', Client = ''app'', Version = ''1.16'', authMethod = 2\<rparr>"
proof -
  let ?c = "\<lparr>SubsonicUser = ''joe'', SubsonicPassword = ''sesame'', MusicDirectory = [],
        Verbose = False, Keepalive = 0\<rparr>"
  have tok: "EncodeToString (md5_Sum ''sesamec19b2d'') = ''26719a1196d2a940705a59634eb18eab''"
    using md5_test_vector_sesame by simp
  have m: "authMethodPassword = 0" "authMethodTokenSalt = 1"
    by (simp_all add: authMethodPassword_def authMethodTokenSalt_def)
  show ?thesis
    using authenticate_iff [of ?c "\<lparr>User = ''joe'', Password = [], Token = ''26719a1196d2a940705a59634eb18eab'',
        Salt = ''c19b2d'', Client = ''app'', Version = ''1.16'', authMethod = 1\<rparr>"]
      authenticate_iff [of ?c "\<lparr>User = ''joe'', Password = [], Token = ''26719A1196D2A940705A59634EB18EAB'',
        Salt = ''c19b2d'', Client = ''app'', Version = ''1.16'', authMethod = 1\<rparr>"]
      authenticate_iff [of ?c "\<lparr>User = ''joe'', Password = ''sesame'', Token = [],
        Salt = [], Client = ''app'', Version = ''1.16'', authMethod = 0\<rparr>"]
      authenticate_iff [of ?c "\<lparr>User = ''joe'', Password = ''sesame'', Token = ''26719a1196d2a940705a59634eb18eab'',
        Salt = ''c19b2d'', Client = ''app'', Version = ''1.16'', authMethod = 2\<rparr>"]
    by (simp add: tok m)
qed

section \<open>Password decoding\<close>

lemma decodePassword_verbatim: "\<not> HasPrefix p ''enc:'' \<Longrightarrow> decodePassword p = p"
  by (simp add: decodePassword_def)

lemma decodePassword_enc: "decodePassword (''enc:'' @ h) = fst (DecodeString h)"
  by (simp add: decodePassword_def HasPrefix_def TrimPrefix_def split: prod.splits)

lemma DecodeString_invalid_first:
  "reverseHexTable p > 15 \<Longrightarrow> fst (DecodeString (p # rest)) = []"
  by (cases rest) (simp_all add: Let_def)

lemma decodePassword_examples:
  "decodePassword ''enc:68656c6c6f'' = ''hello''"
  "decodePassword ''hello'' = ''hello''"
  "decodePassword ''enc:zz'' = []"
  by code_simp+

text \<open>
  C2. The claim says that a marked password whose remainder is not valid hexadecimal
  decodes to the empty string. \<open>decodePassword\<close> drops the error of
  \<open>hex.DecodeString\<close> and keeps the bytes it returns, which are the bytes decoded before
  the error: \<open>enc:6162zz\<close> decodes to \<open>ab\<close>, although \<open>6162zz\<close> is not valid
  hexadecimal, and so does \<open>enc:61626\<close>, whose remainder has odd length.
\<close>

theorem decodePassword_invalid_hex_keeps_prefix:
  "snd (DecodeString ''6162zz'') = Some (InvalidByteError CHR ''z'')
   \<and> decodePassword ''enc:6162zz'' = ''ab''
   \<and> snd (DecodeString ''61626'') = Some ErrLength
   \<and> decodePassword ''enc:61626'' = ''ab''"
  by code_simp

section \<open>The credential parser\<close>

lemma parseRequestContext_password:
  assumes "Get (URL_Query r) ''u'' \<noteq> []" "Get (URL_Query r) ''c'' \<noteq> []"
    "Get (URL_Query r) ''v'' \<noteq> []" "decodePassword (Get (URL_Query r) ''p'') \<noteq> []"
  shows "parseRequestContext r =
     (Some \<lparr>User = Get (URL_Query r) ''u'',
            Password = decodePassword (Get (URL_Query r) ''p''),
            Token = [], Salt = [],
            Client = Get (URL_Query r) ''c'', Version = Get (URL_Query r) ''v'',
            authMethod = authMethodPassword\<rparr>, True)"
  using assms by (simp add: parseRequestContext_def Let_def)

lemma Get_upd_other: "k \<noteq> k' \<Longrightarrow> Get (q(k := x)) k' = Get q k'"
  by (simp add: Get_def)

text \<open>
  C4. When \<open>u\<close>, \<open>c\<close> and \<open>v\<close> are not empty and the decoded \<open>p\<close> is not empty,
  parsing succeeds with a password-mode context that holds the decoded password, and
  storing anything under \<open>t\<close> and \<open>s\<close>, or removing them, does not change the result.
\<close>

theorem parseRequestContext_password_precedence:
  assumes "Get (URL_Query r) ''u'' \<noteq> []" "Get (URL_Query r) ''c'' \<noteq> []"
    "Get (URL_Query r) ''v'' \<noteq> []" "decodePassword (Get (URL_Query r) ''p'') \<noteq> []"
  shows "parseRequestContext (r\<lparr>URL_Query := (URL_Query r)(''t'' := tv, ''s'' := sv)\<rparr>) =
     (Some \<lparr>User = Get (URL_Query r) ''u'',
            Password = decodePassword (Get (URL_Query r) ''p''),
            Token = [], Salt = [],
            Client = Get (URL_Query r) ''c'', Version = Get (URL_Query r) ''v'',
            authMethod = authMethodPassword\<rparr>, True)
     \<and> parseRequestContext r =
       parseRequestContext (r\<lparr>URL_Query := (URL_Query r)(''t'' := tv, ''s'' := sv)\<rparr>)"
proof -
  let ?r' = "r\<lparr>URL_Query := (URL_Query r)(''t'' := tv, ''s'' := sv)\<rparr>"
  have g: "Get (URL_Query ?r') ''u'' = Get (URL_Query r) ''u''"
    "Get (URL_Query ?r') ''c'' = Get (URL_Query r) ''c''"
    "Get (URL_Query ?r') ''v'' = Get (URL_Query r) ''v''"
    "Get (URL_Query ?r') ''p'' = Get (URL_Query r) ''p''"
    by (simp_all add: Get_upd_other)
  have "parseRequestContext ?r' =
     (Some \<lparr>User = Get (URL_Query ?r') ''u'',
            Password = decodePassword (Get (URL_Query ?r') ''p''),
            Token = [], Salt = [],
            Client = Get (URL_Query ?r') ''c'', Version = Get (URL_Query ?r') ''v'',
            authMethod = authMethodPassword\<rparr>, True)"
    using assms by (intro parseRequestContext_password) (simp_all add: Get_upd_other)
  then show ?thesis
    using parseRequestContext_password [OF assms] by (simp only: g)
qed

theorem parseRequestContext_password_precedence_witness:
  "parseRequestContext
     \<lparr>Method = ''GET'', RemoteAddr = ''127.0.0.1:4000'',
        URL_String = ''/rest/ping.view'',
        URL_Query = [''u'' \<mapsto> [''joe''], ''c'' \<mapsto> [''app''], ''v'' \<mapsto> [''1.16.0''],
                     ''p'' \<mapsto> [''enc:736573616d65''],
                     ''t'' \<mapsto> [''26719a1196d2a940705a59634eb18eab''], ''s'' \<mapsto> [''c19b2d'']],
        Body = []\<rparr> =
     (Some \<lparr>User = ''joe'', Password = ''sesame'', Token = [], Salt = [],
            Client = ''app'', Version = ''1.16.0'', authMethod = authMethodPassword\<rparr>, True)"
proof -
  let ?r = "\<lparr>Method = ''GET'', RemoteAddr = ''127.0.0.1:4000'',
        URL_String = ''/rest/ping.view'',
        URL_Query = [''u'' \<mapsto> [''joe''], ''c'' \<mapsto> [''app''], ''v'' \<mapsto> [''1.16.0''],
                     ''p'' \<mapsto> [''enc:736573616d65''],
                     ''t'' \<mapsto> [''26719a1196d2a940705a59634eb18eab''], ''s'' \<mapsto> [''c19b2d'']],
        Body = []\<rparr>"
  have g: "Get (URL_Query ?r) ''u'' = ''joe''" "Get (URL_Query ?r) ''c'' = ''app''"
    "Get (URL_Query ?r) ''v'' = ''1.16.0''" "Get (URL_Query ?r) ''p'' = ''enc:736573616d65''"
    by (simp_all add: Get_def)
  have d: "decodePassword ''enc:736573616d65'' = ''sesame''"
    by code_simp
  have h: "Get (URL_Query ?r) ''u'' \<noteq> []" "Get (URL_Query ?r) ''c'' \<noteq> []"
    "Get (URL_Query ?r) ''v'' \<noteq> []" "decodePassword (Get (URL_Query ?r) ''p'') \<noteq> []"
    by (simp_all only: g d) simp_all
  from parseRequestContext_password_precedence [OF h, of None None]
  have "parseRequestContext ?r =
     (Some \<lparr>User = Get (URL_Query ?r) ''u'',
            Password = decodePassword (Get (URL_Query ?r) ''p''),
            Token = [], Salt = [],
            Client = Get (URL_Query ?r) ''c'', Version = Get (URL_Query ?r) ''v'',
            authMethod = authMethodPassword\<rparr>, True)"
    by (elim conjE) (rule trans)
  then show ?thesis
    by (simp only: g d)
qed

text \<open>
  C5. Parsing fails when one of \<open>u\<close>, \<open>c\<close>, \<open>v\<close> is empty or absent. With all three
  present and an empty decoded password, parsing fails when \<open>t\<close> or \<open>s\<close> is empty,
  and otherwise succeeds with a token-mode context that carries that token and salt.
\<close>

theorem parseRequestContext_cases:
  "(Get (URL_Query r) ''u'' = [] \<or> Get (URL_Query r) ''c'' = [] \<or> Get (URL_Query r) ''v'' = []
      \<longrightarrow> parseRequestContext r = (None, False))
   \<and> (Get (URL_Query r) ''u'' \<noteq> [] \<and> Get (URL_Query r) ''c'' \<noteq> []
        \<and> Get (URL_Query r) ''v'' \<noteq> [] \<and> decodePassword (Get (URL_Query r) ''p'') = []
        \<and> (Get (URL_Query r) ''t'' = [] \<or> Get (URL_Query r) ''s'' = [])
      \<longrightarrow> parseRequestContext r = (None, False))
   \<and> (Get (URL_Query r) ''u'' \<noteq> [] \<and> Get (URL_Query r) ''c'' \<noteq> []
        \<and> Get (URL_Query r) ''v'' \<noteq> [] \<and> decodePassword (Get (URL_Query r) ''p'') = []
        \<and> Get (URL_Query r) ''t'' \<noteq> [] \<and> Get (URL_Query r) ''s'' \<noteq> []
      \<longrightarrow> parseRequestContext r =
          (Some \<lparr>User = Get (URL_Query r) ''u'', Password = [],
                 Token = Get (URL_Query r) ''t'', Salt = Get (URL_Query r) ''s'',
                 Client = Get (URL_Query r) ''c'', Version = Get (URL_Query r) ''v'',
                 authMethod = authMethodTokenSalt\<rparr>, True))"
  by (simp add: parseRequestContext_def Let_def)

theorem parseRequestContext_cases_witness:
  "parseRequestContext
     \<lparr>Method = ''GET'', RemoteAddr = [], URL_String = [],
        URL_Query = [''u'' \<mapsto> [''joe''], ''v'' \<mapsto> [''1.16.0''], ''p'' \<mapsto> [''sesame'']],
        Body = []\<rparr> = (None, False)
   \<and> parseRequestContext
     \<lparr>Method = ''GET'', RemoteAddr = [], URL_String = [],
        URL_Query = [''u'' \<mapsto> [''joe''], ''c'' \<mapsto> [''app''], ''v'' \<mapsto> [''1.16.0''],
                     ''p'' \<mapsto> [''enc:zz''], ''t'' \<mapsto> [''26719a1196d2a940705a59634eb18eab'']],
        Body = []\<rparr> = (None, False)
   \<and> parseRequestContext
     \<lparr>Method = ''GET'', RemoteAddr = [], URL_String = [],
        URL_Query = [''u'' \<mapsto> [''joe''], ''c'' \<mapsto> [''app''], ''v'' \<mapsto> [''1.16.0''],
                     ''t'' \<mapsto> [''26719a1196d2a940705a59634eb18eab''], ''s'' \<mapsto> [''c19b2d'']],
        Body = []\<rparr> =
     (Some \<lparr>User = ''joe'', Password = [], Token = ''26719a1196d2a940705a59634eb18eab'',
            Salt = ''c19b2d'', Client = ''app'', Version = ''1.16.0'',
            authMethod = authMethodTokenSalt\<rparr>, True)"
proof -
  have d: "decodePassword ''enc:zz'' = []" "decodePassword [] = []"
    by code_simp+
  show ?thesis
    using parseRequestContext_cases [of "\<lparr>Method = ''GET'', RemoteAddr = [], URL_String = [],
        URL_Query = [''u'' \<mapsto> [''joe''], ''v'' \<mapsto> [''1.16.0''], ''p'' \<mapsto> [''sesame'']],
        Body = []\<rparr>"]
      parseRequestContext_cases [of "\<lparr>Method = ''GET'', RemoteAddr = [], URL_String = [],
        URL_Query = [''u'' \<mapsto> [''joe''], ''c'' \<mapsto> [''app''], ''v'' \<mapsto> [''1.16.0''],
                     ''p'' \<mapsto> [''enc:zz''], ''t'' \<mapsto> [''26719a1196d2a940705a59634eb18eab'']],
        Body = []\<rparr>"]
      parseRequestContext_cases [of "\<lparr>Method = ''GET'', RemoteAddr = [], URL_String = [],
        URL_Query = [''u'' \<mapsto> [''joe''], ''c'' \<mapsto> [''app''], ''v'' \<mapsto> [''1.16.0''],
                     ''t'' \<mapsto> [''26719a1196d2a940705a59634eb18eab''], ''s'' \<mapsto> [''c19b2d'']],
        Body = []\<rparr>"]
    by (simp add: Get_def d)
qed

text \<open>
  C6. A parse that reports success returns a context, and in it \<open>User\<close>, \<open>Client\<close>
  and \<open>Version\<close> are not empty and exactly one of the two holds: the password is not
  empty, or the token and the salt are both not empty.
\<close>

theorem parseRequestContext_invariant:
  "snd (parseRequestContext r) \<Longrightarrow>
     (case fst (parseRequestContext r) of
        None \<Rightarrow> False
      | Some rctx \<Rightarrow>
          User rctx \<noteq> [] \<and> Client rctx \<noteq> [] \<and> Version rctx \<noteq> []
          \<and> ((Password rctx \<noteq> []) \<noteq> (Token rctx \<noteq> [] \<and> Salt rctx \<noteq> [])))"
  by (simp add: parseRequestContext_def Let_def split: if_splits)

theorem parseRequestContext_invariant_witness:
  "snd (parseRequestContext
     \<lparr>Method = ''POST'', RemoteAddr = [], URL_String = [],
        URL_Query = [''u'' \<mapsto> [''joe''], ''c'' \<mapsto> [''app''], ''v'' \<mapsto> [''1.16.0''],
                     ''p'' \<mapsto> [''enc:736573616d65''], ''s'' \<mapsto> [''c19b2d'']],
        Body = []\<rparr>)
   \<and> (case fst (parseRequestContext
     \<lparr>Method = ''POST'', RemoteAddr = [], URL_String = [],
        URL_Query = [''u'' \<mapsto> [''joe''], ''c'' \<mapsto> [''app''], ''v'' \<mapsto> [''1.16.0''],
                     ''p'' \<mapsto> [''enc:736573616d65''], ''s'' \<mapsto> [''c19b2d'']],
        Body = []\<rparr>) of
        None \<Rightarrow> False
      | Some rctx \<Rightarrow>
          User rctx \<noteq> [] \<and> Client rctx \<noteq> [] \<and> Version rctx \<noteq> []
          \<and> ((Password rctx \<noteq> []) \<noteq> (Token rctx \<noteq> [] \<and> Salt rctx \<noteq> [])))"
proof -
  have d: "decodePassword ''enc:736573616d65'' = ''sesame''"
    by code_simp
  have h: "snd (parseRequestContext
     \<lparr>Method = ''POST'', RemoteAddr = [], URL_String = [],
        URL_Query = [''u'' \<mapsto> [''joe''], ''c'' \<mapsto> [''app''], ''v'' \<mapsto> [''1.16.0''],
                     ''p'' \<mapsto> [''enc:736573616d65''], ''s'' \<mapsto> [''c19b2d'']],
        Body = []\<rparr>)"
    by (simp add: parseRequestContext_def Let_def Get_def d)
  from h parseRequestContext_invariant [OF h] show ?thesis
    by (rule conjI)
qed

section \<open>The request handler\<close>

lemma Sent_http_Error:
  "Sent w = None \<Longrightarrow>
     Sent (http_Error w err code) =
       Some (code, Header_Set (Header_Set (Header_Del (Header w) ''Content-Length'')
                 ''Content-Type'' ''text/plain; charset=utf-8'')
                 ''X-Content-Type-Options'' ''nosniff'')"
  by (simp add: http_Error_def WriteHeader_def Write_def Let_def)

lemma Sent_writeXML:
  "Sent w = None \<Longrightarrow> Sent (writeXML w c) = Some (200, Header w)"
  by (simp add: writeXML_def WriteHeader_def Write_def Let_def)

lemma Written_writeXML:
  "Written (writeXML w c) = Written w @ [XML c]"
  by (simp add: writeXML_def WriteHeader_def Write_def Let_def)

lemma ServeHTTP_not_allowed:
  "Method r \<noteq> ''GET'' \<Longrightarrow> Method r \<noteq> ''POST'' \<Longrightarrow>
     ServeHTTP s w r =
       (http_Error w ''method not allowed'' 405,
        (if Verbose (cfg s)
         then [Logf (RemoteAddr r @ '' -> '' @ Method r @ '' '' @ URL_String r)]
         else []) @ [Call_http_Error])"
  by (simp add: ServeHTTP_def Let_def)

lemma ServeHTTP_missing:
  "Method r = ''GET'' \<or> Method r = ''POST'' \<Longrightarrow> \<not> snd (parseRequestContext r) \<Longrightarrow>
     ServeHTTP s w r =
       (writeXML (w\<lparr>Header := Header_Set (Header w) ''Connection'' ''close''\<rparr>) errMissingParameter,
        (if Verbose (cfg s)
         then [Logf (RemoteAddr r @ '' -> '' @ Method r @ '' '' @ URL_String r)]
         else []) @ [Call_parseRequestContext, Call_writeXML errMissingParameter])"
  by (auto simp: ServeHTTP_def Let_def split: prod.splits)

lemma ServeHTTP_unauthorized:
  "Method r = ''GET'' \<or> Method r = ''POST'' \<Longrightarrow> parseRequestContext r = (Some rc, True) \<Longrightarrow>
   \<not> authenticate (cfg s) rc \<Longrightarrow>
     ServeHTTP s w r =
       (writeXML (w\<lparr>Header := Header_Set (Header w) ''Connection'' ''close''\<rparr>) errUnauthorized,
        (if Verbose (cfg s)
         then [Logf (RemoteAddr r @ '' -> '' @ Method r @ '' '' @ URL_String r)]
         else []) @ [Call_parseRequestContext, Call_authenticate, Call_writeXML errUnauthorized])"
  by (auto simp: ServeHTTP_def Let_def)

lemma ServeHTTP_dispatch:
  "Method r = ''GET'' \<or> Method r = ''POST'' \<Longrightarrow> parseRequestContext r = (Some rc, True) \<Longrightarrow>
   authenticate (cfg s) rc \<Longrightarrow>
     ServeHTTP s w r =
       (mux s (w\<lparr>Header := Header_Set (Header w) ''Connection'' ''close''\<rparr>) r,
        (if Verbose (cfg s)
         then [Logf (RemoteAddr r @ '' -> '' @ Method r @ '' '' @ URL_String r)]
         else []) @ [Call_parseRequestContext, Call_authenticate, Call_mux_ServeHTTP])"
  by (auto simp: ServeHTTP_def Let_def)

lemma parseRequestContext_ok_Some:
  "snd (parseRequestContext r) \<Longrightarrow> \<exists>rc. parseRequestContext r = (Some rc, True)"
  by (simp add: parseRequestContext_def Let_def split: if_splits)

text \<open>
  C8. A request whose method is neither GET nor POST is answered with status 405 by
  \<open>http.Error\<close> and nothing else happens: the events of the handler contain no call
  of the parser, of the authenticator, of \<open>writeXML\<close> or of the route table, and the
  response does not depend on the route table or on the credentials of the server.
\<close>

theorem ServeHTTP_method_not_allowed:
  assumes "Method r \<noteq> ''GET''" "Method r \<noteq> ''POST''" "Sent w = None"
  shows "status (fst (ServeHTTP s w r)) = Some 405
     \<and> fst (ServeHTTP s w r) = http_Error w ''method not allowed'' 405
     \<and> Call_parseRequestContext \<notin> set (snd (ServeHTTP s w r))
     \<and> Call_authenticate \<notin> set (snd (ServeHTTP s w r))
     \<and> Call_mux_ServeHTTP \<notin> set (snd (ServeHTTP s w r))
     \<and> Call_writeXML c \<notin> set (snd (ServeHTTP s w r))
     \<and> last (snd (ServeHTTP s w r)) = Call_http_Error"
  using assms
  by (simp add: ServeHTTP_not_allowed status_def Sent_http_Error)

theorem ServeHTTP_method_not_allowed_witness:
  "status (fst (ServeHTTP
       \<lparr>db = Map.empty,
          cfg = \<lparr>SubsonicUser = ''joe'', SubsonicPassword = ''sesame'', MusicDirectory = [],
                  Verbose = True, Keepalive = 0\<rparr>,
          mux = http_NotFound\<rparr>
       \<lparr>Header = Map.empty, Sent = None, Written = []\<rparr>
       \<lparr>Method = ''DELETE'', RemoteAddr = ''127.0.0.1:4000'', URL_String = ''/rest/ping.view?u=joe'',
          URL_Query = [''u'' \<mapsto> [''joe''], ''c'' \<mapsto> [''app''], ''v'' \<mapsto> [''1.16.0''],
                       ''p'' \<mapsto> [''sesame'']],
          Body = []\<rparr>)) = Some 405
   \<and> snd (ServeHTTP
       \<lparr>db = Map.empty,
          cfg = \<lparr>SubsonicUser = ''joe'', SubsonicPassword = ''sesame'', MusicDirectory = [],
                  Verbose = True, Keepalive = 0\<rparr>,
          mux = http_NotFound\<rparr>
       \<lparr>Header = Map.empty, Sent = None, Written = []\<rparr>
       \<lparr>Method = ''DELETE'', RemoteAddr = ''127.0.0.1:4000'', URL_String = ''/rest/ping.view?u=joe'',
          URL_Query = [''u'' \<mapsto> [''joe''], ''c'' \<mapsto> [''app''], ''v'' \<mapsto> [''1.16.0''],
                       ''p'' \<mapsto> [''sesame'']],
          Body = []\<rparr>) =
       [Logf ''127.0.0.1:4000 -> DELETE /rest/ping.view?u=joe'', Call_http_Error]"
proof -
  let ?s = "\<lparr>db = Map.empty,
          cfg = \<lparr>SubsonicUser = ''joe'', SubsonicPassword = ''sesame'', MusicDirectory = [],
                  Verbose = True, Keepalive = 0\<rparr>,
          mux = http_NotFound\<rparr>"
  let ?w = "\<lparr>Header = Map.empty, Sent = None, Written = []\<rparr>"
  let ?r = "\<lparr>Method = ''DELETE'', RemoteAddr = ''127.0.0.1:4000'', URL_String = ''/rest/ping.view?u=joe'',
          URL_Query = [''u'' \<mapsto> [''joe''], ''c'' \<mapsto> [''app''], ''v'' \<mapsto> [''1.16.0''],
                       ''p'' \<mapsto> [''sesame'']],
          Body = []\<rparr>"
  have h: "Method ?r \<noteq> ''GET''" "Method ?r \<noteq> ''POST''" "Sent ?w = None"
    by simp_all
  have tr: "snd (ServeHTTP ?s ?w ?r) =
       [Logf ''127.0.0.1:4000 -> DELETE /rest/ping.view?u=joe'', Call_http_Error]"
    by (simp add: ServeHTTP_def Let_def)
  from ServeHTTP_method_not_allowed [OF h, of ?s] tr show ?thesis
    by blast
qed

text \<open>
  C7. For a GET or POST request on a writer that has sent nothing yet: when parsing
  fails the response has status 200 and the missing-parameter body; when parsing
  succeeds and authentication fails the response has status 200 and the unauthorized
  body. The two bodies differ, and in both cases the route table is not called: the
  events hold no call of it and the result is the same for every route table.
\<close>

theorem ServeHTTP_rejections:
  assumes "Method r = ''GET'' \<or> Method r = ''POST''" "Sent w = None"
  shows "(\<not> snd (parseRequestContext r) \<longrightarrow>
            status (fst (ServeHTTP s w r)) = Some 200
          \<and> Written (fst (ServeHTTP s w r)) = Written w @ [XML errMissingParameter]
          \<and> Call_mux_ServeHTTP \<notin> set (snd (ServeHTTP s w r))
          \<and> ServeHTTP (s\<lparr>mux := m\<rparr>) w r = ServeHTTP s w r)
     \<and> (parseRequestContext r = (Some rc, True) \<and> \<not> authenticate (cfg s) rc \<longrightarrow>
            status (fst (ServeHTTP s w r)) = Some 200
          \<and> Written (fst (ServeHTTP s w r)) = Written w @ [XML errUnauthorized]
          \<and> Call_mux_ServeHTTP \<notin> set (snd (ServeHTTP s w r))
          \<and> ServeHTTP (s\<lparr>mux := m\<rparr>) w r = ServeHTTP s w r)
     \<and> XML errMissingParameter \<noteq> XML errUnauthorized"
proof -
  let ?w = "w\<lparr>Header := Header_Set (Header w) ''Connection'' ''close''\<rparr>"
  have fresh: "Sent ?w = None"
    using assms(2) by simp
  have a: "status (fst (ServeHTTP s w r)) = Some 200
          \<and> Written (fst (ServeHTTP s w r)) = Written w @ [XML errMissingParameter]
          \<and> Call_mux_ServeHTTP \<notin> set (snd (ServeHTTP s w r))
          \<and> ServeHTTP (s\<lparr>mux := m\<rparr>) w r = ServeHTTP s w r"
    if "\<not> snd (parseRequestContext r)"
    using ServeHTTP_missing [OF assms(1) that, of s w]
      ServeHTTP_missing [OF assms(1) that, of "s\<lparr>mux := m\<rparr>" w]
    by (simp add: status_def Sent_writeXML [OF fresh] Written_writeXML)
  have b: "status (fst (ServeHTTP s w r)) = Some 200
          \<and> Written (fst (ServeHTTP s w r)) = Written w @ [XML errUnauthorized]
          \<and> Call_mux_ServeHTTP \<notin> set (snd (ServeHTTP s w r))
          \<and> ServeHTTP (s\<lparr>mux := m\<rparr>) w r = ServeHTTP s w r"
    if "parseRequestContext r = (Some rc, True)" "\<not> authenticate (cfg s) rc"
  proof -
    have "\<not> authenticate (cfg (s\<lparr>mux := m\<rparr>)) rc"
      using that(2) by simp
    from ServeHTTP_unauthorized [OF assms(1) that(1) that(2), of w]
      ServeHTTP_unauthorized [OF assms(1) that(1) this, of w]
    show ?thesis
      by (simp add: status_def Sent_writeXML [OF fresh] Written_writeXML)
  qed
  show ?thesis
    using a b by simp
qed

theorem ServeHTTP_rejections_witness:
  "status (fst (ServeHTTP
       \<lparr>db = Map.empty,
          cfg = \<lparr>SubsonicUser = ''joe'', SubsonicPassword = ''sesame'', MusicDirectory = [],
                  Verbose = False, Keepalive = 0\<rparr>,
          mux = http_NotFound\<rparr>
       \<lparr>Header = Map.empty, Sent = None, Written = []\<rparr>
       \<lparr>Method = ''GET'', RemoteAddr = [], URL_String = [],
          URL_Query = [''u'' \<mapsto> [''joe''], ''c'' \<mapsto> [''app'']], Body = []\<rparr>)) = Some 200
   \<and> Written (fst (ServeHTTP
       \<lparr>db = Map.empty,
          cfg = \<lparr>SubsonicUser = ''joe'', SubsonicPassword = ''sesame'', MusicDirectory = [],
                  Verbose = False, Keepalive = 0\<rparr>,
          mux = http_NotFound\<rparr>
       \<lparr>Header = Map.empty, Sent = None, Written = []\<rparr>
       \<lparr>Method = ''GET'', RemoteAddr = [], URL_String = [],
          URL_Query = [''u'' \<mapsto> [''joe''], ''c'' \<mapsto> [''app'']], Body = []\<rparr>)) =
       [XML errMissingParameter]
   \<and> status (fst (ServeHTTP
       \<lparr>db = Map.empty,
          cfg = \<lparr>SubsonicUser = ''joe'', SubsonicPassword = ''sesame'', MusicDirectory = [],
                  Verbose = False, Keepalive = 0\<rparr>,
          mux = http_NotFound\<rparr>
       \<lparr>Header = Map.empty, Sent = None, Written = []\<rparr>
       \<lparr>Method = ''POST'', RemoteAddr = [], URL_String = [],
          URL_Query = [''u'' \<mapsto> [''joe''], ''c'' \<mapsto> [''app''], ''v'' \<mapsto> [''1.16.0''],
                       ''p'' \<mapsto> [''wrong'']], Body = []\<rparr>)) = Some 200
   \<and> Written (fst (ServeHTTP
       \<lparr>db = Map.empty,
          cfg = \<lparr>SubsonicUser = ''joe'', SubsonicPassword = ''sesame'', MusicDirectory = [],
                  Verbose = False, Keepalive = 0\<rparr>,
          mux = http_NotFound\<rparr>
       \<lparr>Header = Map.empty, Sent = None, Written = []\<rparr>
       \<lparr>Method = ''POST'', RemoteAddr = [], URL_String = [],
          URL_Query = [''u'' \<mapsto> [''joe''], ''c'' \<mapsto> [''app''], ''v'' \<mapsto> [''1.16.0''],
                       ''p'' \<mapsto> [''wrong'']], Body = []\<rparr>)) =
       [XML errUnauthorized]"
proof -
  let ?s = "\<lparr>db = Map.empty,
          cfg = \<lparr>SubsonicUser = ''joe'', SubsonicPassword = ''sesame'', MusicDirectory = [],
                  Verbose = False, Keepalive = 0\<rparr>,
          mux = http_NotFound\<rparr>"
  let ?w = "\<lparr>Header = Map.empty, Sent = None, Written = []\<rparr>"
  let ?r1 = "\<lparr>Method = ''GET'', RemoteAddr = [], URL_String = [],
          URL_Query = [''u'' \<mapsto> [''joe''], ''c'' \<mapsto> [''app'']], Body = []\<rparr>"
  let ?r2 = "\<lparr>Method = ''POST'', RemoteAddr = [], URL_String = [],
          URL_Query = [''u'' \<mapsto> [''joe''], ''c'' \<mapsto> [''app''], ''v'' \<mapsto> [''1.16.0''],
                       ''p'' \<mapsto> [''wrong'']], Body = []\<rparr>"
  let ?rc = "\<lparr>User = ''joe'', Password = ''wrong'', Token = [], Salt = [],
          Client = ''app'', Version = ''1.16.0'', authMethod = authMethodPassword\<rparr>"
  have m1: "Method ?r1 = ''GET'' \<or> Method ?r1 = ''POST''"
    and m2: "Method ?r2 = ''GET'' \<or> Method ?r2 = ''POST''"
    and f: "Sent ?w = None"
    by simp_all
  have p1: "\<not> snd (parseRequestContext ?r1)"
    by (simp add: parseRequestContext_def Let_def Get_def)
  have d: "decodePassword ''wrong'' = ''wrong''"
    by code_simp
  have p2: "parseRequestContext ?r2 = (Some ?rc, True)"
    by (simp add: parseRequestContext_def Let_def Get_def d)
  have a2: "\<not> authenticate (cfg ?s) ?rc"
    by (simp add: authenticate_def)
  from ServeHTTP_rejections [OF m1 f, where s = ?s and m = http_NotFound and rc = ?rc] p1
    ServeHTTP_rejections [OF m2 f, where s = ?s and m = http_NotFound and rc = ?rc] p2 a2
  show ?thesis
    by simp
qed

text \<open>
  C3. The claim says that every response of the handler carries \<open>Connection: close\<close>,
  the 405 response included. The handler answers a request with another method before
  it sets the header, so the 405 response is sent without it.
\<close>

theorem ServeHTTP_405_without_Connection_close:
  "status (fst (ServeHTTP
       \<lparr>db = Map.empty,
          cfg = \<lparr>SubsonicUser = ''joe'', SubsonicPassword = ''sesame'', MusicDirectory = [],
                  Verbose = False, Keepalive = 0\<rparr>,
          mux = http_NotFound\<rparr>
       \<lparr>Header = Map.empty, Sent = None, Written = []\<rparr>
       \<lparr>Method = ''PUT'', RemoteAddr = [], URL_String = [],
          URL_Query = [''u'' \<mapsto> [''joe''], ''c'' \<mapsto> [''app''], ''v'' \<mapsto> [''1.16.0''],
                       ''p'' \<mapsto> [''sesame'']], Body = []\<rparr>)) = Some 405
   \<and> sentHeader (fst (ServeHTTP
       \<lparr>db = Map.empty,
          cfg = \<lparr>SubsonicUser = ''joe'', SubsonicPassword = ''sesame'', MusicDirectory = [],
                  Verbose = False, Keepalive = 0\<rparr>,
          mux = http_NotFound\<rparr>
       \<lparr>Header = Map.empty, Sent = None, Written = []\<rparr>
       \<lparr>Method = ''PUT'', RemoteAddr = [], URL_String = [],
          URL_Query = [''u'' \<mapsto> [''joe''], ''c'' \<mapsto> [''app''], ''v'' \<mapsto> [''1.16.0''],
                       ''p'' \<mapsto> [''sesame'']], Body = []\<rparr>)) ''Connection'' \<noteq> [''close'']"
  by (simp add: ServeHTTP_def Let_def status_def sentHeader_def http_Error_def
      WriteHeader_def Write_def Header_Set_def Header_Del_def)

text \<open>
  C3, as amended. For a GET or POST request on a writer that has sent nothing yet, the
  missing-parameter response and the unauthorized response carry
  \<open>Connection: close\<close>; an authenticated request is handed to the route table with a
  writer that has the header set and has sent nothing, so that the response of the
  route carries the header whenever the route handler sends the header map it is
  given.
\<close>

theorem ServeHTTP_Connection_close:
  assumes "Method r = ''GET'' \<or> Method r = ''POST''" "Sent w = None"
  shows "(\<not> snd (parseRequestContext r) \<longrightarrow>
            sentHeader (fst (ServeHTTP s w r)) ''Connection'' = [''close''])
     \<and> (parseRequestContext r = (Some rc, True) \<and> \<not> authenticate (cfg s) rc \<longrightarrow>
            sentHeader (fst (ServeHTTP s w r)) ''Connection'' = [''close''])
     \<and> (parseRequestContext r = (Some rc, True) \<and> authenticate (cfg s) rc \<longrightarrow>
            (\<exists>w'. fst (ServeHTTP s w r) = mux s w' r
                 \<and> Header w' ''Connection'' = Some [''close''] \<and> Sent w' = None))
     \<and> ((\<forall>w'. Header w' ''Connection'' = Some [''close''] \<and> Sent w' = None \<longrightarrow>
               sentHeader (mux s w' r) ''Connection'' = [''close'']) \<longrightarrow>
            sentHeader (fst (ServeHTTP s w r)) ''Connection'' = [''close''])"
proof -
  let ?w = "w\<lparr>Header := Header_Set (Header w) ''Connection'' ''close''\<rparr>"
  have fresh: "Sent ?w = None" and hdr: "Header ?w ''Connection'' = Some [''close'']"
    using assms(2) by (simp_all add: Header_Set_def)
  have x: "sentHeader (writeXML ?w c) ''Connection'' = [''close'']" for c
    using Sent_writeXML [OF fresh, of c] by (simp add: sentHeader_def Header_Set_def)
  have a: "sentHeader (fst (ServeHTTP s w r)) ''Connection'' = [''close'']"
    if "\<not> snd (parseRequestContext r)"
    using ServeHTTP_missing [OF assms(1) that, of s w] x by simp
  have b: "sentHeader (fst (ServeHTTP s w r)) ''Connection'' = [''close'']"
    if "parseRequestContext r = (Some rc, True)" "\<not> authenticate (cfg s) rc" for rc
    using ServeHTTP_unauthorized [OF assms(1) that, of w] x by simp
  have c: "fst (ServeHTTP s w r) = mux s ?w r"
    if "parseRequestContext r = (Some rc, True)" "authenticate (cfg s) rc" for rc
    using ServeHTTP_dispatch [OF assms(1) that, of w] by simp
  have d: "sentHeader (fst (ServeHTTP s w r)) ''Connection'' = [''close'']"
    if keep: "\<forall>w'. Header w' ''Connection'' = Some [''close''] \<and> Sent w' = None \<longrightarrow>
               sentHeader (mux s w' r) ''Connection'' = [''close'']"
  proof (cases "snd (parseRequestContext r)")
    case False
    then show ?thesis by (rule a)
  next
    case True
    then obtain rc' where p: "parseRequestContext r = (Some rc', True)"
      using parseRequestContext_ok_Some by blast
    show ?thesis
    proof (cases "authenticate (cfg s) rc'")
      case False
      with p show ?thesis by (rule b)
    next
      case True
      with p have "fst (ServeHTTP s w r) = mux s ?w r" by (rule c)
      with keep fresh hdr show ?thesis by simp
    qed
  qed
  from c fresh hdr have c': "parseRequestContext r = (Some rc, True) \<and> authenticate (cfg s) rc \<longrightarrow>
            (\<exists>w'. fst (ServeHTTP s w r) = mux s w' r
                 \<and> Header w' ''Connection'' = Some [''close''] \<and> Sent w' = None)"
    by blast
  show ?thesis
    using a b c' d by blast
qed

lemma http_NotFound_keeps_Connection:
  "Header w ''Connection'' = Some [''close''] \<and> Sent w = None \<longrightarrow>
     sentHeader (http_NotFound w r) ''Connection'' = [''close'']"
  by (simp add: http_NotFound_def sentHeader_def Sent_http_Error Header_Set_def Header_Del_def)

theorem ServeHTTP_Connection_close_witness:
  "sentHeader (fst (ServeHTTP
       \<lparr>db = Map.empty,
          cfg = \<lparr>SubsonicUser = ''joe'', SubsonicPassword = ''sesame'', MusicDirectory = [],
                  Verbose = False, Keepalive = 0\<rparr>,
          mux = http_NotFound\<rparr>
       \<lparr>Header = Map.empty, Sent = None, Written = []\<rparr>
       \<lparr>Method = ''GET'', RemoteAddr = [], URL_String = [],
          URL_Query = [''u'' \<mapsto> [''joe''], ''c'' \<mapsto> [''app''], ''v'' \<mapsto> [''1.16.0''],
                       ''p'' \<mapsto> [''sesame'']], Body = []\<rparr>)) ''Connection'' = [''close'']
   \<and> sentHeader (fst (ServeHTTP
       \<lparr>db = Map.empty,
          cfg = \<lparr>SubsonicUser = ''joe'', SubsonicPassword = ''sesame'', MusicDirectory = [],
                  Verbose = False, Keepalive = 0\<rparr>,
          mux = http_NotFound\<rparr>
       \<lparr>Header = Map.empty, Sent = None, Written = []\<rparr>
       \<lparr>Method = ''POST'', RemoteAddr = [], URL_String = [],
          URL_Query = [''u'' \<mapsto> [''joe'']], Body = []\<rparr>)) ''Connection'' = [''close'']"
proof -
  let ?s = "\<lparr>db = Map.empty,
          cfg = \<lparr>SubsonicUser = ''joe'', SubsonicPassword = ''sesame'', MusicDirectory = [],
                  Verbose = False, Keepalive = 0\<rparr>,
          mux = http_NotFound\<rparr>"
  let ?w = "\<lparr>Header = Map.empty, Sent = None, Written = []\<rparr>"
  let ?r1 = "\<lparr>Method = ''GET'', RemoteAddr = [], URL_String = [],
          URL_Query = [''u'' \<mapsto> [''joe''], ''c'' \<mapsto> [''app''], ''v'' \<mapsto> [''1.16.0''],
                       ''p'' \<mapsto> [''sesame'']], Body = []\<rparr>"
  let ?r2 = "\<lparr>Method = ''POST'', RemoteAddr = [], URL_String = [],
          URL_Query = [''u'' \<mapsto> [''joe'']], Body = []\<rparr>"
  have m1: "Method ?r1 = ''GET'' \<or> Method ?r1 = ''POST''"
    and m2: "Method ?r2 = ''GET'' \<or> Method ?r2 = ''POST''"
    and f: "Sent ?w = None"
    by simp_all
  have keep: "\<forall>w'. Header w' ''Connection'' = Some [''close''] \<and> Sent w' = None \<longrightarrow>
       sentHeader (mux ?s w' ?r1) ''Connection'' = [''close'']"
    by (simp add: http_NotFound_keeps_Connection [rule_format])
  have p2: "\<not> snd (parseRequestContext ?r2)"
    by (simp add: parseRequestContext_def Let_def Get_def)
  from ServeHTTP_Connection_close [OF m1 f, where s = ?s] keep
  have "sentHeader (fst (ServeHTTP ?s ?w ?r1)) ''Connection'' = [''close'']"
    by blast
  moreover from ServeHTTP_Connection_close [OF m2 f, where s = ?s] p2
  have "sentHeader (fst (ServeHTTP ?s ?w ?r2)) ''Connection'' = [''close'']"
    by blast
  ultimately show ?thesis
    by (rule conjI)
qed

section \<open>Where the credentials are read from\<close>

text \<open>
  C10. The parser reads the query values of the URL and nothing else: two requests
  with the same query values parse alike, whatever their methods and bodies are, and a
  request whose query values lack \<open>u\<close>, \<open>c\<close> or \<open>v\<close> fails to parse whatever its
  body holds; the handler then answers it with the missing-parameter error.
\<close>

theorem parseRequestContext_reads_query_only:
  "(URL_Query r = URL_Query r' \<longrightarrow> parseRequestContext r = parseRequestContext r')
   \<and> parseRequestContext (r\<lparr>Method := m, Body := b\<rparr>) = parseRequestContext r
   \<and> (Get (URL_Query r) ''u'' = [] \<or> Get (URL_Query r) ''c'' = [] \<or> Get (URL_Query r) ''v'' = []
        \<longrightarrow> parseRequestContext (r\<lparr>Method := ''POST'', Body := b\<rparr>) = (None, False)
          \<and> snd (ServeHTTP s w (r\<lparr>Method := ''POST'', Body := b\<rparr>)) =
              (if Verbose (cfg s)
               then [Logf (RemoteAddr r @ '' -> POST '' @ URL_String r)]
               else []) @ [Call_parseRequestContext, Call_writeXML errMissingParameter])"
proof -
  have a: "parseRequestContext r = parseRequestContext r'" if "URL_Query r = URL_Query r'"
    using that by (simp add: parseRequestContext_def)
  have b: "parseRequestContext (r\<lparr>Method := m, Body := b\<rparr>) = parseRequestContext r" for m b
    by (simp add: parseRequestContext_def)
  have c: "parseRequestContext (r\<lparr>Method := ''POST'', Body := b\<rparr>) = (None, False)"
    if "Get (URL_Query r) ''u'' = [] \<or> Get (URL_Query r) ''c'' = [] \<or> Get (URL_Query r) ''v'' = []"
    using that by (auto simp: parseRequestContext_def Let_def)
  have d: "snd (ServeHTTP s w (r\<lparr>Method := ''POST'', Body := b\<rparr>)) =
              (if Verbose (cfg s)
               then [Logf (RemoteAddr r @ '' -> POST '' @ URL_String r)]
               else []) @ [Call_parseRequestContext, Call_writeXML errMissingParameter]"
    if "Get (URL_Query r) ''u'' = [] \<or> Get (URL_Query r) ''c'' = [] \<or> Get (URL_Query r) ''v'' = []"
  proof -
    let ?r = "r\<lparr>Method := ''POST'', Body := b\<rparr>"
    have "Method ?r = ''GET'' \<or> Method ?r = ''POST''" by simp
    moreover have "\<not> snd (parseRequestContext ?r)" using c [OF that] by simp
    ultimately show ?thesis
      using ServeHTTP_missing [of ?r s w] by simp
  qed
  show ?thesis
    using a b c d by blast
qed

theorem parseRequestContext_reads_query_only_witness:
  "parseRequestContext
       \<lparr>Method = ''POST'', RemoteAddr = [], URL_String = ''/rest/ping.view'',
          URL_Query = Map.empty, Body = ''u=joe&p=sesame&c=app&v=1.16.0''\<rparr> = (None, False)
   \<and> parseRequestContext
       \<lparr>Method = ''POST'', RemoteAddr = [], URL_String = ''/rest/ping.view'',
          URL_Query = Map.empty, Body = ''u=joe&p=sesame&c=app&v=1.16.0''\<rparr> =
     parseRequestContext
       \<lparr>Method = ''GET'', RemoteAddr = [], URL_String = ''/rest/ping.view'',
          URL_Query = Map.empty, Body = []\<rparr>"
proof -
  let ?r = "\<lparr>Method = ''GET'', RemoteAddr = [], URL_String = ''/rest/ping.view'',
          URL_Query = Map.empty, Body = []\<rparr>"
  let ?r' = "\<lparr>Method = ''POST'', RemoteAddr = [], URL_String = ''/rest/ping.view'',
          URL_Query = Map.empty, Body = ''u=joe&p=sesame&c=app&v=1.16.0''\<rparr>"
  have q: "URL_Query ?r' = URL_Query ?r"
    by simp
  have u: "Get (URL_Query ?r) ''u'' = []"
    by (simp add: Get_def)
  have e: "?r\<lparr>Method := ''POST'', Body := ''u=joe&p=sesame&c=app&v=1.16.0''\<rparr> = ?r'"
    by simp
  from parseRequestContext_reads_query_only
    [where r = ?r and b = "''u=joe&p=sesame&c=app&v=1.16.0''"] u
  have "parseRequestContext (?r\<lparr>Method := ''POST'', Body := ''u=joe&p=sesame&c=app&v=1.16.0''\<rparr>)
      = (None, False)"
    by blast
  then have 1: "parseRequestContext ?r' = (None, False)"
    by (simp only: e)
  from parseRequestContext_reads_query_only [where r = ?r' and r' = ?r] q
  have 2: "parseRequestContext ?r' = parseRequestContext ?r"
    by blast
  from 1 2 show ?thesis
    by (rule conjI)
qed

section \<open>The keepalive goroutine\<close>

lemma pings_of_append: "pings_of (xs @ ys) = pings_of xs @ pings_of ys"
  by (simp add: pings_of_def)

lemma logs_of_append: "logs_of (xs @ ys) = logs_of xs @ logs_of ys"
  by (simp add: logs_of_def)

lemma pings_of_ping: "pings_of (ping s n) = [n]"
  by (cases "db s n") (simp_all add: pings_of_def ping_def)

lemma logs_of_ping: "logs_of (ping s n) = ping_log s n"
  by (cases "db s n") (simp_all add: logs_of_def ping_def ping_log_def)

lemma pings_of_Select: "pings_of [Select c] = []"
  by (simp add: pings_of_def)

lemma logs_of_Select: "logs_of [Select c] = []"
  by (simp add: logs_of_def)

lemma keepalive_loop_tick:
  "fst (keepalive_loop s n (tick_C # sel)) =
     ping s n @ [Select tick_C] @ fst (keepalive_loop s (Suc n) sel)"
  "snd (keepalive_loop s n (tick_C # sel)) = snd (keepalive_loop s (Suc n) sel)"
  by (simp_all split: prod.splits)

lemma keepalive_loop_first: "take 1 (fst (keepalive_loop s n sel)) = [Call_Ping n]"
proof (cases sel)
  case Nil
  then show ?thesis by (simp add: ping_def)
next
  case (Cons c sel')
  then show ?thesis
    by (cases c) (simp_all add: keepalive_loop_tick ping_def del: keepalive_loop.simps(3))
qed

lemma upt_Suc_Suc: "[n..<n + Suc (Suc k)] = n # [Suc n..<Suc n + Suc k]"
  by (simp add: upt_conv_Cons)

lemma keepalive_loop_pings:
  "pings_of (fst (keepalive_loop s n sel)) =
     [n..<n + Suc (length (takeWhile (\<lambda>c. c = tick_C) sel))]"
proof (induction sel arbitrary: n)
  case Nil
  show ?case by (simp add: pings_of_ping)
next
  case (Cons c sel)
  show ?case
  proof (cases c)
    case ctx_Done
    then show ?thesis
      by (simp add: pings_of_append pings_of_ping pings_of_Select)
  next
    case tick_C
    have "pings_of (fst (keepalive_loop s n (tick_C # sel))) =
        n # pings_of (fst (keepalive_loop s (Suc n) sel))"
      by (simp only: keepalive_loop_tick pings_of_append pings_of_ping pings_of_Select) simp
    also have "\<dots> = n # [Suc n..<Suc n + Suc (length (takeWhile (\<lambda>c. c = tick_C) sel))]"
      by (simp only: Cons.IH)
    also have "\<dots> = [n..<n + Suc (Suc (length (takeWhile (\<lambda>c. c = tick_C) sel)))]"
      by (simp only: upt_Suc_Suc)
    finally show ?thesis
      using tick_C by simp
  qed
qed

lemma keepalive_loop_logs:
  "logs_of (fst (keepalive_loop s n sel)) =
     concat (map (ping_log s) [n..<n + Suc (length (takeWhile (\<lambda>c. c = tick_C) sel))])"
proof (induction sel arbitrary: n)
  case Nil
  show ?case by (simp add: logs_of_ping)
next
  case (Cons c sel)
  show ?case
  proof (cases c)
    case ctx_Done
    then show ?thesis
      by (simp add: logs_of_append logs_of_ping logs_of_Select)
  next
    case tick_C
    have "logs_of (fst (keepalive_loop s n (tick_C # sel))) =
        ping_log s n @ logs_of (fst (keepalive_loop s (Suc n) sel))"
      by (simp only: keepalive_loop_tick logs_of_append logs_of_ping logs_of_Select) simp
    also have "\<dots> = ping_log s n @
        concat (map (ping_log s) [Suc n..<Suc n + Suc (length (takeWhile (\<lambda>c. c = tick_C) sel))])"
      by (simp only: Cons.IH)
    also have "\<dots> = concat (map (ping_log s)
        [n..<n + Suc (Suc (length (takeWhile (\<lambda>c. c = tick_C) sel)))])"
      by (simp only: upt_Suc_Suc list.map concat.simps)
    finally show ?thesis
      using tick_C by simp
  qed
qed

lemma keepalive_loop_state:
  "snd (keepalive_loop s n sel) = (if ctx_Done \<in> set sel then Returned else Waiting)"
proof (induction sel arbitrary: n)
  case Nil
  show ?case by simp
next
  case (Cons c sel)
  show ?case
  proof (cases c)
    case ctx_Done
    then show ?thesis by simp
  next
    case tick_C
    then show ?thesis
      using Cons.IH [of "Suc n"] by (simp only: keepalive_loop_tick) simp
  qed
qed

lemma set_ping_no_Done: "Call_wg_Done \<notin> set (ping s n)"
  by (cases "db s n") (simp_all add: ping_def)

lemma keepalive_loop_no_Done: "Call_wg_Done \<notin> set (fst (keepalive_loop s n sel))"
proof (induction sel arbitrary: n)
  case Nil
  show ?case by (simp add: set_ping_no_Done)
next
  case (Cons c sel)
  show ?case
  proof (cases c)
    case ctx_Done
    then show ?thesis by (simp add: set_ping_no_Done)
  next
    case tick_C
    then show ?thesis
      using Cons.IH [of "Suc n"] by (simp only: keepalive_loop_tick) (simp add: set_ping_no_Done)
  qed
qed

text \<open>
  C9. With a positive interval, the goroutine calls \<open>Ping\<close> right after it has made
  the ticker, before any \<open>select\<close>. It then calls \<open>Ping\<close> once more for each tick
  that it receives before the cancellation: the calls are numbered from 0 up to the
  number of those ticks, whatever the calls return. Each call that returns an error
  adds one line to the log and no other line is logged. The goroutine returns, and
  releases the wait group, exactly when a \<open>select\<close> receives the cancellation; after
  ticks only it is waiting in \<open>select\<close>.
\<close>

theorem keepalive_pings_every_tick:
  assumes "0 < Keepalive (cfg s)"
  shows "take 2 (fst (keepalive s sel)) = [Call_NewTicker (Keepalive (cfg s)), Call_Ping 0]
     \<and> pings_of (fst (keepalive s sel)) =
         [0..<Suc (length (takeWhile (\<lambda>c. c = tick_C) sel))]
     \<and> logs_of (fst (keepalive s sel)) =
         concat (map (ping_log s) [0..<Suc (length (takeWhile (\<lambda>c. c = tick_C) sel))])
     \<and> snd (keepalive s sel) = (if ctx_Done \<in> set sel then Returned else Waiting)
     \<and> (Call_wg_Done \<in> set (fst (keepalive s sel))) = (ctx_Done \<in> set sel)
     \<and> snd (keepalive s (replicate k tick_C)) = Waiting"
proof -
  obtain evs g where loop: "keepalive_loop s 0 sel = (evs, g)"
    by (cases "keepalive_loop s 0 sel")
  have k: "keepalive s sel =
      (Call_NewTicker (Keepalive (cfg s)) # evs @ (if g = Returned then [Call_wg_Done] else []), g)"
    using assms loop by (simp add: keepalive_def)
  have first: "take 1 evs = [Call_Ping 0]"
    using keepalive_loop_first [of s 0 sel] loop by simp
  have pings: "pings_of evs = [0..<Suc (length (takeWhile (\<lambda>c. c = tick_C) sel))]"
    using keepalive_loop_pings [of s 0 sel] loop by simp
  have logs: "logs_of evs =
      concat (map (ping_log s) [0..<Suc (length (takeWhile (\<lambda>c. c = tick_C) sel))])"
    using keepalive_loop_logs [of s 0 sel] loop by simp
  have g: "g = (if ctx_Done \<in> set sel then Returned else Waiting)"
    using keepalive_loop_state [of s 0 sel] loop by simp
  have nd: "Call_wg_Done \<notin> set evs"
    using keepalive_loop_no_Done [of s 0 sel] loop by simp
  have c1: "take 2 (fst (keepalive s sel)) = [Call_NewTicker (Keepalive (cfg s)), Call_Ping 0]"
  proof -
    from first obtain evs' where "evs = Call_Ping 0 # evs'"
      by (cases evs) simp_all
    then show ?thesis
      by (simp add: k)
  qed
  have c2: "pings_of (fst (keepalive s sel)) =
         [0..<Suc (length (takeWhile (\<lambda>c. c = tick_C) sel))]"
  proof -
    have "pings_of (Call_NewTicker d # evs @ tl) = pings_of evs @ pings_of tl" for d tl
      by (simp add: pings_of_def)
    moreover have "pings_of (if g = Returned then [Call_wg_Done] else []) = []"
      by (simp add: pings_of_def)
    ultimately show ?thesis
      using pings by (simp add: k)
  qed
  have c3: "logs_of (fst (keepalive s sel)) =
         concat (map (ping_log s) [0..<Suc (length (takeWhile (\<lambda>c. c = tick_C) sel))])"
  proof -
    have "logs_of (Call_NewTicker d # evs @ tl) = logs_of evs @ logs_of tl" for d tl
      by (simp add: logs_of_def)
    moreover have "logs_of (if g = Returned then [Call_wg_Done] else []) = []"
      by (simp add: logs_of_def)
    ultimately show ?thesis
      using logs by (simp add: k)
  qed
  have c4: "snd (keepalive s sel) = (if ctx_Done \<in> set sel then Returned else Waiting)"
    using g by (simp add: k)
  have c5: "(Call_wg_Done \<in> set (fst (keepalive s sel))) = (ctx_Done \<in> set sel)"
    using g nd by (simp add: k)
  have c6: "snd (keepalive s (replicate k tick_C)) = Waiting"
  proof -
    have "snd (keepalive_loop s 0 (replicate k tick_C)) = Waiting"
      by (simp add: keepalive_loop_state)
    then show ?thesis
      using assms by (cases "keepalive_loop s 0 (replicate k tick_C)") (simp add: keepalive_def)
  qed
  from c1 c2 c3 c4 c5 c6 show ?thesis
    by blast
qed

theorem keepalive_pings_every_tick_witness:
  "0 < Keepalive (cfg
       \<lparr>db = [1 \<mapsto> ''EOF''],
          cfg = \<lparr>SubsonicUser = ''joe'', SubsonicPassword = ''sesame'', MusicDirectory = [],
                  Verbose = False, Keepalive = 5000000000\<rparr>,
          mux = http_NotFound\<rparr>)
   \<and> keepalive
       \<lparr>db = [1 \<mapsto> ''EOF''],
          cfg = \<lparr>SubsonicUser = ''joe'', SubsonicPassword = ''sesame'', MusicDirectory = [],
                  Verbose = False, Keepalive = 5000000000\<rparr>,
          mux = http_NotFound\<rparr>
       [tick_C, tick_C, ctx_Done, tick_C] =
       ([Call_NewTicker 5000000000, Call_Ping 0, Select tick_C,
         Call_Ping 1, Logf ''failed to send keepalive message: EOF'', Select tick_C,
         Call_Ping 2, Select ctx_Done, Call_wg_Done], Returned)
   \<and> pings_of (fst (keepalive
       \<lparr>db = [1 \<mapsto> ''EOF''],
          cfg = \<lparr>SubsonicUser = ''joe'', SubsonicPassword = ''sesame'', MusicDirectory = [],
                  Verbose = False, Keepalive = 5000000000\<rparr>,
          mux = http_NotFound\<rparr>
       [tick_C, tick_C, ctx_Done, tick_C])) = [0, 1, 2]
   \<and> logs_of (fst (keepalive
       \<lparr>db = [1 \<mapsto> ''EOF''],
          cfg = \<lparr>SubsonicUser = ''joe'', SubsonicPassword = ''sesame'', MusicDirectory = [],
                  Verbose = False, Keepalive = 5000000000\<rparr>,
          mux = http_NotFound\<rparr>
       [tick_C, tick_C, ctx_Done, tick_C])) = [''failed to send keepalive message: EOF'']"
proof -
  let ?s = "\<lparr>db = [1 \<mapsto> ''EOF''],
          cfg = \<lparr>SubsonicUser = ''joe'', SubsonicPassword = ''sesame'', MusicDirectory = [],
                  Verbose = False, Keepalive = 5000000000\<rparr>,
          mux = http_NotFound\<rparr>"
  let ?sel = "[tick_C, tick_C, ctx_Done, tick_C]"
  have h: "0 < Keepalive (cfg ?s)"
    by simp
  have run: "keepalive ?s ?sel =
       ([Call_NewTicker 5000000000, Call_Ping 0, Select tick_C,
         Call_Ping 1, Logf ''failed to send keepalive message: EOF'', Select tick_C,
         Call_Ping 2, Select ctx_Done, Call_wg_Done], Returned)"
    by (simp add: keepalive_def ping_def)
  have up: "[0..<Suc (length (takeWhile (\<lambda>c. c = tick_C) ?sel))] = [0, 1, 2]"
    by (simp add: upt_conv_Cons)
  have lg: "concat (map (ping_log ?s) [0, 1, 2]) = [''failed to send keepalive message: EOF'']"
    by (simp add: ping_log_def)
  from keepalive_pings_every_tick [OF h, of ?sel]
  have "pings_of (fst (keepalive ?s ?sel)) = [0, 1, 2]"
    and "logs_of (fst (keepalive ?s ?sel)) = [''failed to send keepalive message: EOF'']"
    by (simp_all only: up lg)
  with h run show ?thesis
    by blast
qed

end
